theory Spec2Isabelle
  imports Main "HOL-Library.Word" "HOL-Library.RBT" "HOL-Library.Sublist"
begin

unbundle bit_operations_syntax

section \<open>Failure conditions\<close>

text \<open>
  The header \<^verbatim>\<open>tri_driver_common/utility.hpp\<close> signals failure in three ways: it throws
  \<^verbatim>\<open>std::invalid_argument\<close>, it throws \<^verbatim>\<open>std::runtime_error\<close>, and it calls \<^verbatim>\<open>assert\<close>.
  In a translation unit compiled without \<^verbatim>\<open>NDEBUG\<close> the macro aborts the program when its
  condition is false; compiled with \<^verbatim>\<open>NDEBUG\<close> it expands to nothing and the condition is
  not evaluated. Each failure carries the text the source gives it.
\<close>

datatype error =
    invalid_argument string
  | runtime_error string
  | assertion_failure string

section \<open>Numerals as strings\<close>

text \<open>
  \<^verbatim>\<open>std::to_string\<close> of an unsigned integer is its decimal numeral; of a signed integer,
  the decimal numeral of its magnitude after a minus sign when it is negative.
\<close>

definition digit_char :: "nat \<Rightarrow> char" where
  "digit_char d = char_of (48 + d)"

function to_string_nat :: "nat \<Rightarrow> string" where
  "to_string_nat n =
     (if n < 10 then [digit_char n]
      else to_string_nat (n div 10) @ [digit_char (n mod 10)])"
  by pat_completeness auto
termination
  by (relation "measure id") auto

declare to_string_nat.simps [simp del]

definition to_string_u64 :: "64 word \<Rightarrow> string" where
  "to_string_u64 w = to_string_nat (unat w)"

definition to_string_int :: "int \<Rightarrow> string" where
  "to_string_int i = (if i < 0 then CHR ''-'' # to_string_nat (nat (- i)) else to_string_nat (nat i))"

section \<open>Comparisons that are not total\<close>

text \<open>
  A floating-point \<^verbatim>\<open>T\<close> as far as its comparisons go: the numbers, ordered as they are,
  and NaN, for which every one of \<^verbatim>\<open><\<close>, \<^verbatim>\<open>>\<close>, \<^verbatim>\<open><=\<close> and \<^verbatim>\<open>>=\<close> is false, whatever the other
  operand. \<^verbatim>\<open>std::to_string\<close> prints NaN as \<^verbatim>\<open>nan\<close>.
\<close>

datatype 'a with_nan = NaN | Num 'a

instantiation with_nan :: (ord) ord
begin

fun less_eq_with_nan :: "'a with_nan \<Rightarrow> 'a with_nan \<Rightarrow> bool" where
  "less_eq_with_nan (Num a) (Num b) = (a \<le> b)"
| "less_eq_with_nan _ _ = False"

fun less_with_nan :: "'a with_nan \<Rightarrow> 'a with_nan \<Rightarrow> bool" where
  "less_with_nan (Num a) (Num b) = (a < b)"
| "less_with_nan _ _ = False"

instance ..

end

definition to_string_with_nan :: "int with_nan \<Rightarrow> string" where
  "to_string_with_nan x = (case x of NaN \<Rightarrow> ''nan'' | Num i \<Rightarrow> to_string_int i)"

section \<open>Numeric bounds\<close>

text \<open>
  \<^verbatim>\<open>std::max(a, b)\<close> is \<^verbatim>\<open>(a < b) ? b : a\<close> and \<^verbatim>\<open>std::min(a, b)\<close> is
  \<^verbatim>\<open>(b < a) ? b : a\<close>. The template parameter \<^verbatim>\<open>T\<close> is any type with the comparison
  operators: the sort \<open>ord\<close> gives \<open><\<close> and \<open>\<le>\<close> and assumes nothing of them, and
  \<^verbatim>\<open>a > b\<close>, \<^verbatim>\<open>a >= b\<close> are \<open>b < a\<close>, \<open>b \<le> a\<close>.
\<close>

definition std_max :: "'a::ord \<Rightarrow> 'a \<Rightarrow> 'a" where
  "std_max a b = (if a < b then b else a)"

definition std_min :: "'a::ord \<Rightarrow> 'a \<Rightarrow> 'a" where
  "std_min a b = (if b < a then b else a)"

definition ClampValue :: "'a::ord \<Rightarrow> 'a \<Rightarrow> 'a \<Rightarrow> error + 'a" where
  "ClampValue val min' max' =
     (if max' \<ge> min' then Inr (std_min max' (std_max min' val))
      else Inl (invalid_argument ''min > max''))"

text \<open>
  \<^verbatim>\<open>ClampValueAndWarn\<close> writes to \<^verbatim>\<open>std::cerr\<close>. The model returns the result together with
  the list of strings written to the error stream by the call, in order.
  \<^verbatim>\<open>std::to_string\<close> is overloaded on \<^verbatim>\<open>T\<close>; it is a parameter of the model.
\<close>

definition ClampValueAndWarn ::
  "('a \<Rightarrow> string) \<Rightarrow> 'a::ord \<Rightarrow> 'a \<Rightarrow> 'a \<Rightarrow> (error + 'a) \<times> string list" where
  "ClampValueAndWarn to_string val min' max' =
     (if max' \<ge> min' then
        (if val < min' then
           (let msg = ''Clamping '' @ to_string val @ '' to min '' @ to_string min' @ [CHR 0x0A]
            in (Inr min', [msg]))
         else if val > max' then
           (let msg = ''Clamping '' @ to_string val @ '' to max '' @ to_string max' @ [CHR 0x0A]
            in (Inr max', [msg]))
         else (Inr val, []))
      else (Inl (invalid_argument ''min > max''), []))"

section \<open>Bit operations\<close>

text \<open>
  The \<^verbatim>\<open>static_assert\<close> of \<^verbatim>\<open>SetBit\<close> admits \<^verbatim>\<open>uint8_t\<close>, \<^verbatim>\<open>uint16_t\<close>, \<^verbatim>\<open>uint32_t\<close> and
  \<^verbatim>\<open>uint64_t\<close> only: any other instantiation does not compile.
\<close>

definition fixed_size_unsigned :: "nat \<Rightarrow> bool" where
  "fixed_size_unsigned w = (w = 8 \<or> w = 16 \<or> w = 32 \<or> w = 64)"

text \<open>
  The operand of \<^verbatim>\<open><<\<close> undergoes integral promotion: a \<^verbatim>\<open>uint8_t\<close> or \<^verbatim>\<open>uint16_t\<close> is
  promoted to the 32-bit \<^verbatim>\<open>int\<close>, the wider types are shifted as they are. A shift count
  that is not smaller than the width of the promoted operand is undefined behaviour.
\<close>

definition promoted_width :: "nat \<Rightarrow> nat" where
  "promoted_width w = (if w < 32 then 32 else w)"

text \<open>
  \<^verbatim>\<open>SetBit\<close> at type \<^verbatim>\<open>T\<close> of \<open>LENGTH('a)\<close> bits. The result \<open>None\<close> stands for undefined
  behaviour. The values of \<^verbatim>\<open><<\<close>, \<^verbatim>\<open>|\<close>, \<^verbatim>\<open>~\<close> and \<^verbatim>\<open>&\<close> are computed on the promoted
  operands and converted back to \<^verbatim>\<open>T\<close>, which keeps the low \<open>LENGTH('a)\<close> bits: that is
  the operation of the same name on \<open>'a word\<close>.
\<close>

definition SetBit :: "'a::len word \<Rightarrow> 32 word \<Rightarrow> bool \<Rightarrow> 'a word option" where
  "SetBit current bit_position bit_value =
     (if unat bit_position < promoted_width LENGTH('a) then
        (let update_mask = (1 :: 'a word);
             update_mask = push_bit (unat bit_position) update_mask
         in if bit_value then Some (current OR update_mask)
            else (let update_mask = NOT update_mask
                  in Some (current AND update_mask)))
      else None)"

text \<open>
  \<^verbatim>\<open>GetBit\<close> stores the mask in a \<^verbatim>\<open>const uint32_t\<close>, whatever \<^verbatim>\<open>T\<close> is: the conversion
  keeps the low 32 bits of the value \<^verbatim>\<open>SetBit\<close> returned. In \<^verbatim>\<open>mask & current\<close> both
  operands are converted to their common unsigned type, which holds both values
  unchanged, so the conjunction is that of the two unsigned values.
\<close>

definition GetBit :: "'a::len word \<Rightarrow> 32 word \<Rightarrow> bool option" where
  "GetBit current bit_position =
     (case SetBit (0 :: 'a word) bit_position True of
        None \<Rightarrow> None
      | Some m \<Rightarrow>
          (let mask = (ucast m :: 32 word)
           in if (uint mask AND uint current) > 0 then Some True else Some False))"

section \<open>Alignment\<close>

text \<open>
  Both functions take the address of the referenced \<^verbatim>\<open>item\<close> and convert it to
  \<^verbatim>\<open>uintptr_t\<close>; the model takes that number, \<open>item_ptr_val\<close>, in place of the item. The
  remainder \<^verbatim>\<open>item_ptr_val % desired_alignment\<close> is computed on \<^verbatim>\<open>uint64_t\<close>; for
  \<^verbatim>\<open>desired_alignment == 0\<close> it is undefined behaviour (the source has no guard), which
  the model returns as \<open>None\<close>. \<^verbatim>\<open>CheckAlignment\<close> returns its answer together with the
  strings it wrote to \<^verbatim>\<open>std::cout\<close>.
\<close>

definition CheckAlignment :: "64 word \<Rightarrow> 64 word \<Rightarrow> bool \<Rightarrow> (bool \<times> string list) option" where
  "CheckAlignment item_ptr_val desired_alignment verbose =
     (if desired_alignment = 0 then None
      else if item_ptr_val mod desired_alignment = 0 then
        (if verbose then
           (let msg = ''Item @ '' @ to_string_u64 item_ptr_val @ '' aligned to ''
                      @ to_string_u64 desired_alignment @ '' bytes'' @ [CHR 0x0A]
            in Some (True, [msg]))
         else Some (True, []))
      else
        (if verbose then
           (let msg = ''Item @ '' @ to_string_u64 item_ptr_val @ '' NOT aligned to ''
                      @ to_string_u64 desired_alignment @ '' bytes'' @ [CHR 0x0A]
            in Some (False, [msg]))
         else Some (False, [])))"

definition RequireAlignment :: "64 word \<Rightarrow> 64 word \<Rightarrow> (error + unit) option" where
  "RequireAlignment item_ptr_val desired_alignment =
     (if desired_alignment = 0 then None
      else if item_ptr_val mod desired_alignment \<noteq> 0 then
        Some (Inl (runtime_error (''Item @ '' @ to_string_u64 item_ptr_val
                                  @ '' not aligned at desired alignment of ''
                                  @ to_string_u64 desired_alignment @ '' bytes'')))
      else Some (Inr ()))"

section \<open>Container utilities\<close>

text \<open>
  \<^verbatim>\<open>std::string::find(substring)\<close> returns the lowest position at which \<open>substring\<close>
  occurs in the string, and \<^verbatim>\<open>npos\<close> (here \<open>None\<close>) when it occurs nowhere; the empty
  string occurs at position 0 of every string.
\<close>

fun string_find_from :: "string \<Rightarrow> string \<Rightarrow> nat \<Rightarrow> nat option" where
  "string_find_from [] substring pos = (if substring = [] then Some pos else None)"
| "string_find_from (c # cs) substring pos =
     (if prefix substring (c # cs) then Some pos
      else string_find_from cs substring (Suc pos))"

definition string_find :: "string \<Rightarrow> string \<Rightarrow> nat option" where
  "string_find s substring = string_find_from s substring 0"

text \<open>The loop over \<open>idx\<close> visits the strings in order and returns at the first miss.\<close>

fun CheckAllStringsForSubstring :: "string list \<Rightarrow> string \<Rightarrow> bool" where
  "CheckAllStringsForSubstring [] substring = True"
| "CheckAllStringsForSubstring (candidate_string # strings) substring =
     (case string_find candidate_string substring of
        None \<Rightarrow> False
      | Some found \<Rightarrow> CheckAllStringsForSubstring strings substring)"

text \<open>
  \<^verbatim>\<open>IsSubset\<close> uses its local \<^verbatim>\<open>std::map<T, uint8_t>\<close> through \<^verbatim>\<open>operator[]\<close> and \<^verbatim>\<open>find\<close>
  only and never iterates it. A \<^verbatim>\<open>std::map\<close> tells its keys apart by the comparison alone:
  two keys are equivalent when neither is less than the other. \<^verbatim>\<open>find(key)\<close> returns an
  element whose key is equivalent to \<open>key\<close>, or \<^verbatim>\<open>end()\<close> (here \<open>None\<close>) when there is none;
  \<^verbatim>\<open>map[key] = value\<close> assigns to the element with an equivalent key when there is one and
  inserts a new element otherwise. The model keeps the elements in a list.
\<close>

definition equivalent :: "'a::ord \<Rightarrow> 'a \<Rightarrow> bool" where
  "equivalent a b = (\<not> a < b \<and> \<not> b < a)"

fun std_map_find :: "('a::ord \<times> 'v) list \<Rightarrow> 'a \<Rightarrow> ('a \<times> 'v) option" where
  "std_map_find [] key = None"
| "std_map_find (element # rest) key =
     (if equivalent (fst element) key then Some element else std_map_find rest key)"

fun std_map_assign :: "'a::ord \<Rightarrow> 'v \<Rightarrow> ('a \<times> 'v) list \<Rightarrow> ('a \<times> 'v) list" where
  "std_map_assign key value [] = [(key, value)]"
| "std_map_assign key value (element # rest) =
     (if equivalent (fst element) key then (fst element, value) # rest
      else element # std_map_assign key value rest)"

text \<open>The first loop of \<^verbatim>\<open>IsSubset\<close>: \<^verbatim>\<open>items_map[item] = 0x01\<close> for each item of \<open>set\<close>.\<close>

fun IsSubset_fill :: "'a::ord list \<Rightarrow> ('a \<times> 8 word) list \<Rightarrow> ('a \<times> 8 word) list" where
  "IsSubset_fill [] items_map = items_map"
| "IsSubset_fill (item # rest) items_map = IsSubset_fill rest (std_map_assign item 1 items_map)"

text \<open>The second loop: the first item of \<open>candidate_subset\<close> that is not found ends it.\<close>

fun IsSubset_check :: "('a::ord \<times> 8 word) list \<Rightarrow> 'a list \<Rightarrow> bool" where
  "IsSubset_check items_map [] = True"
| "IsSubset_check items_map (item # rest) =
     (case std_map_find items_map item of
        None \<Rightarrow> False
      | Some found_itr \<Rightarrow> IsSubset_check items_map rest)"

definition IsSubset :: "'a::ord list \<Rightarrow> 'a list \<Rightarrow> bool" where
  "IsSubset set' candidate_subset =
     (let items_map = IsSubset_fill set' []
      in IsSubset_check items_map candidate_subset)"

definition SetsEqual :: "'a::ord list \<Rightarrow> 'a list \<Rightarrow> bool" where
  "SetsEqual set1 set2 = (if IsSubset set1 set2 \<and> IsSubset set2 set1 then True else False)"

text \<open>
  For the functions that take or return a \<^verbatim>\<open>std::map\<close>, the map is an ordered map with
  unique keys, iterated in the order of its keys: a red-black tree \<open>('k, 'v) rbt\<close>, with
  \<open>RBT.insert\<close> for \<^verbatim>\<open>map[key] = value\<close> and \<open>RBT.entries\<close> for the iteration from
  \<^verbatim>\<open>begin()\<close> to \<^verbatim>\<open>end()\<close>. The key type is totally ordered by the comparison of the map.
\<close>

text \<open>The iterator loops of \<^verbatim>\<open>GetKeys\<close> and \<^verbatim>\<open>GetKeysAndValues\<close>, with \<^verbatim>\<open>push_back\<close>.\<close>

fun GetKeys_loop :: "('k \<times> 'v) list \<Rightarrow> 'k list \<Rightarrow> 'k list" where
  "GetKeys_loop [] keys = keys"
| "GetKeys_loop (itr # rest) keys =
     (let cur_key = fst itr in GetKeys_loop rest (keys @ [cur_key]))"

definition GetKeys :: "('k::linorder, 'v) rbt \<Rightarrow> 'k list" where
  "GetKeys map' = GetKeys_loop (RBT.entries map') []"

fun GetKeysAndValues_loop :: "('k \<times> 'v) list \<Rightarrow> ('k \<times> 'v) list \<Rightarrow> ('k \<times> 'v) list" where
  "GetKeysAndValues_loop [] keys_and_values = keys_and_values"
| "GetKeysAndValues_loop (itr # rest) keys_and_values =
     (let cur_pair = (fst itr, snd itr)
      in GetKeysAndValues_loop rest (keys_and_values @ [cur_pair]))"

definition GetKeysAndValues :: "('k::linorder, 'v) rbt \<Rightarrow> ('k \<times> 'v) list" where
  "GetKeysAndValues map' = GetKeysAndValues_loop (RBT.entries map') []"

text \<open>
  \<^verbatim>\<open>MakeFromKeysAndValues\<close> on a vector of pairs: the loop runs \<open>idx\<close> from 0 to the size of
  the vector and assigns \<^verbatim>\<open>map[cur_pair.first] = cur_pair.second\<close>.
\<close>

definition MakeFromKeysAndValues :: "('k::linorder \<times> 'v) list \<Rightarrow> ('k, 'v) rbt" where
  "MakeFromKeysAndValues keys_and_values =
     fold (\<lambda>idx map'. let cur_pair = keys_and_values ! idx
                      in RBT.insert (fst cur_pair) (snd cur_pair) map')
       [0 ..< length keys_and_values] RBT.empty"



section \<open>Properties of the numeric bounds\<close>

lemma std_max_eq: "std_max a b = max a b"
  for a b :: "'a::linorder"
  by (auto simp: std_max_def max_def)

lemma std_min_eq: "std_min a b = min b a"
  for a b :: "'a::linorder"
  by (auto simp: std_min_def min_def)

text \<open>
  Claim C3. When \<open>min \<le> max\<close>, \<^verbatim>\<open>ClampValue(val, min, max)\<close> returns a value of the
  inclusive interval from \<open>min\<close> to \<open>max\<close>, and \<open>val\<close> itself when \<open>val\<close> is already in that
  interval; when \<open>min > max\<close> it fails with the invalid-argument condition.
\<close>

theorem ClampValue_range:
  fixes val min' max' :: "'a::linorder"
  shows "(min' \<le> max' \<longrightarrow>
            (\<exists>r. ClampValue val min' max' = Inr r \<and> min' \<le> r \<and> r \<le> max' \<and>
                 (min' \<le> val \<and> val \<le> max' \<longrightarrow> r = val))) \<and>
         (max' < min' \<longrightarrow> ClampValue val min' max' = Inl (invalid_argument ''min > max''))"
  by (auto simp: ClampValue_def std_min_eq std_max_eq)

theorem ClampValue_range_witness:
  "(0::int) \<le> 10 \<and> ClampValue (15::int) 0 10 = Inr 10 \<and> ClampValue (-3::int) 0 10 = Inr 0 \<and>
   ClampValue (7::int) 0 10 = Inr 7 \<and>
   (10::int) < 20 \<and> ClampValue (7::int) 20 10 = Inl (invalid_argument ''min > max'')"
  using ClampValue_range [of "0::int" 10 15] ClampValue_range [of "20::int" 10 7]
  by (simp add: ClampValue_def std_min_def std_max_def)

lemma to_string_int_examples:
  "to_string_int 15 = ''15''" "to_string_int 10 = ''10''" "to_string_int (- 3) = ''-3''"
  "to_string_int 0 = ''0''" "to_string_int 7 = ''7''"
  by code_simp+

text \<open>
  Claim C4, as amended. For \<open>val\<close>, \<open>min\<close> and \<open>max\<close> of a totally ordered type,
  \<^verbatim>\<open>ClampValueAndWarn(val, min, max)\<close> returns what \<^verbatim>\<open>ClampValue(val, min, max)\<close> returns,
  failure included; when \<open>min > max\<close> it fails with the same invalid-argument condition and
  has written nothing; when \<open>min \<le> max\<close> it writes to the error stream the one line that
  names \<open>val\<close> and the bound it was clamped to when \<open>val\<close> is below \<open>min\<close> or above \<open>max\<close>, and
  nothing otherwise, so that a diagnostic is written exactly when \<open>val\<close> is outside the
  interval from \<open>min\<close> to \<open>max\<close>.
\<close>

theorem ClampValueAndWarn_refines_ClampValue:
  fixes val min' max' :: "'a::linorder"
  shows "fst (ClampValueAndWarn to_string val min' max') = ClampValue val min' max' \<and>
         (max' < min' \<longrightarrow>
            ClampValueAndWarn to_string val min' max' = (Inl (invalid_argument ''min > max''), [])) \<and>
         (min' \<le> max' \<longrightarrow>
            snd (ClampValueAndWarn to_string val min' max') =
              (if val < min' then
                 [''Clamping '' @ to_string val @ '' to min '' @ to_string min' @ [CHR 0x0A]]
               else if max' < val then
                 [''Clamping '' @ to_string val @ '' to max '' @ to_string max' @ [CHR 0x0A]]
               else []) \<and>
            (snd (ClampValueAndWarn to_string val min' max') \<noteq> [] \<longleftrightarrow>
               \<not> (min' \<le> val \<and> val \<le> max')))"
  by (auto simp: ClampValueAndWarn_def ClampValue_def std_min_eq std_max_eq Let_def)

theorem ClampValueAndWarn_refines_ClampValue_witness:
  "(0::int) \<le> 10 \<and>
   ClampValueAndWarn to_string_int 15 0 10 =
     (ClampValue (15::int) 0 10, [''Clamping 15 to max 10'' @ [CHR 0x0A]]) \<and>
   ClampValueAndWarn to_string_int (- 3) 0 10 =
     (ClampValue (- 3 :: int) 0 10, [''Clamping -3 to min 0'' @ [CHR 0x0A]]) \<and>
   ClampValueAndWarn to_string_int 7 0 10 = (ClampValue (7::int) 0 10, []) \<and>
   ClampValue (15::int) 0 10 = Inr 10 \<and> ClampValue (- 3 :: int) 0 10 = Inr 0 \<and>
   ClampValue (7::int) 0 10 = Inr 7 \<and>
   (10::int) < 20 \<and>
   ClampValueAndWarn to_string_int 7 20 10 = (Inl (invalid_argument ''min > max''), [])"
proof -
  have le: "(0::int) \<le> 10" and lt: "(10::int) < 20"
    by simp_all
  have a: "ClampValueAndWarn to_string_int 15 0 10 =
             (ClampValue (15::int) 0 10, [''Clamping 15 to max 10'' @ [CHR 0x0A]])"
    using ClampValueAndWarn_refines_ClampValue [of to_string_int 15 0 10] le
    by (simp add: prod_eq_iff to_string_int_examples)
  have b: "ClampValueAndWarn to_string_int (- 3) 0 10 =
             (ClampValue (- 3 :: int) 0 10, [''Clamping -3 to min 0'' @ [CHR 0x0A]])"
    using ClampValueAndWarn_refines_ClampValue [of to_string_int "- 3" 0 10] le
    by (simp add: prod_eq_iff to_string_int_examples)
  have c: "ClampValueAndWarn to_string_int 7 0 10 = (ClampValue (7::int) 0 10, [])"
    using ClampValueAndWarn_refines_ClampValue [of to_string_int 7 0 10] le
    by (simp add: prod_eq_iff)
  have d: "ClampValueAndWarn to_string_int 7 20 10 = (Inl (invalid_argument ''min > max''), [])"
    using ClampValueAndWarn_refines_ClampValue [of to_string_int 7 20 10] lt
    by simp
  have e: "ClampValue (15::int) 0 10 = Inr 10" "ClampValue (- 3 :: int) 0 10 = Inr 0"
    "ClampValue (7::int) 0 10 = Inr 7"
    by (simp_all add: ClampValue_def std_min_def std_max_def)
  from a b c d e le lt show ?thesis
    by simp
qed

text \<open>
  Claim C4 as stated covers every \<open>val\<close>. At a floating-point type with \<open>val\<close> NaN and the
  bounds 0 and 10, \<^verbatim>\<open>ClampValueAndWarn\<close> returns NaN and writes nothing, although NaN is not
  in the interval, while \<^verbatim>\<open>ClampValue\<close> returns 0.
\<close>

theorem ClampValueAndWarn_NaN_counterexample:
  "ClampValueAndWarn to_string_with_nan NaN (Num 0) (Num 10) = (Inr NaN, []) \<and>
   ClampValue NaN (Num 0) (Num (10::int)) = Inr (Num 0) \<and>
   fst (ClampValueAndWarn to_string_with_nan NaN (Num 0) (Num 10)) \<noteq>
     ClampValue NaN (Num 0) (Num 10) \<and>
   (Num 0 :: int with_nan) \<le> Num 10 \<and>
   \<not> ((Num 0 :: int with_nan) \<le> NaN \<and> (NaN :: int with_nan) \<le> Num 10)"
  by (simp add: ClampValueAndWarn_def ClampValue_def std_min_def std_max_def)

section \<open>Properties of the bit operations\<close>

lemma SetBit_defined:
  "unat bit_position < LENGTH('a::len) \<Longrightarrow>
     SetBit (current :: 'a word) bit_position bit_value =
       Some (if bit_value then current OR push_bit (unat bit_position) 1
             else current AND NOT (push_bit (unat bit_position) 1))"
  by (simp add: SetBit_def promoted_width_def Let_def)

lemma mask_test_int:
  fixes k :: int
  assumes "0 \<le> k"
  shows "(2 ^ n AND k > 0) \<longleftrightarrow> bit k n"
proof -
  have "0 \<le> 2 ^ n AND k"
    using assms by simp
  moreover have "(2 ^ n AND k = 0) \<longleftrightarrow> \<not> bit k n"
    by (simp add: and.commute and_exp_eq_0_iff_not_bit)
  ultimately show ?thesis
    by linarith
qed

lemma ucast_mask_low:
  assumes "n < LENGTH('a::len)" and "n < 32"
  shows "(ucast (2 ^ n :: 'a word) :: 32 word) = 2 ^ n"
  using assms by (intro bit_eqI) (auto simp: bit_simps)

lemma ucast_mask_high:
  assumes "32 \<le> n"
  shows "(ucast (2 ^ n :: 'a::len word) :: 32 word) = 0"
  using assms by (intro bit_eqI) (auto simp: bit_simps)

lemma uint_mask_low: "n < 32 \<Longrightarrow> uint (2 ^ n :: 32 word) = 2 ^ n"
  by (rule uint_2p) (simp add: word_gt_0)

text \<open>
  Below bit 32 \<^verbatim>\<open>GetBit\<close> reads the bit, at every admitted type.
\<close>

lemma GetBit_low:
  assumes "unat bit_position < LENGTH('a::len)" and "unat bit_position < 32"
  shows "GetBit (current :: 'a word) bit_position = Some (bit current (unat bit_position))"
  using assms mask_test_int [of "uint current" "unat bit_position"]
  by (simp add: GetBit_def SetBit_defined ucast_mask_low uint_mask_low bit_uint_iff)

text \<open>
  From bit 32 on the mask does not fit the \<^verbatim>\<open>uint32_t\<close> it is stored in: the stored mask
  is 0 and \<^verbatim>\<open>GetBit\<close> answers false, whatever the bit is. Of the admitted types only
  \<^verbatim>\<open>uint64_t\<close> has such bits.
\<close>

lemma GetBit_high:
  assumes "unat bit_position < LENGTH('a::len)" and "32 \<le> unat bit_position"
  shows "GetBit (current :: 'a word) bit_position = Some False"
  using assms by (simp add: GetBit_def SetBit_defined ucast_mask_high)

lemma GetBit_SetBit_low:
  assumes "unat bit_position < LENGTH('a::len)" and "unat bit_position < 32"
  shows "Option.bind (SetBit (current :: 'a word) bit_position bit_value)
           (\<lambda>updated. GetBit updated bit_position) = Some bit_value"
  using assms by (simp add: SetBit_defined GetBit_low bit_simps)

lemma GetBit_SetBit_False:
  assumes "unat bit_position < LENGTH('a::len)"
  shows "Option.bind (SetBit (current :: 'a word) bit_position False)
           (\<lambda>updated. GetBit updated bit_position) = Some False"
proof (cases "unat bit_position < 32")
  case True
  with assms show ?thesis
    by (simp add: GetBit_SetBit_low)
next
  case False
  with assms show ?thesis
    by (simp add: SetBit_defined GetBit_high)
qed

text \<open>
  Claim C1, at the input where the code departs from it: \<^verbatim>\<open>SetBit\<close> sets bit 32 of the
  \<^verbatim>\<open>uint64_t\<close> 0, giving \<open>2 ^ 32\<close>, and \<^verbatim>\<open>GetBit\<close> of that value at position 32 returns
  false, where the claim says true.
\<close>

theorem GetBit_SetBit_uint64_bit32:
  "SetBit (0 :: 64 word) 32 True = Some 4294967296 \<and>
   GetBit (4294967296 :: 64 word) 32 = Some False"
  by (simp add: SetBit_def GetBit_def promoted_width_def)

text \<open>
  Claim C6. At each of the four admitted types and for a position below the width of the
  type, \<^verbatim>\<open>SetBit(x, bit_position, bit_value)\<close> returns \<open>x\<close> with the bit at \<open>bit_position\<close>
  (0 the least significant) equal to \<open>bit_value\<close> and every other bit as in \<open>x\<close>.
\<close>

theorem SetBit_sets_one_bit:
  fixes current :: "'a::len word"
  assumes "fixed_size_unsigned LENGTH('a)" and "unat bit_position < LENGTH('a)"
  shows "\<exists>r. SetBit current bit_position bit_value = Some r \<and>
              (bit r (unat bit_position) \<longleftrightarrow> bit_value) \<and>
              (\<forall>n. n \<noteq> unat bit_position \<longrightarrow> (bit r n \<longleftrightarrow> bit current n))"
  using assms(2) by (auto simp: SetBit_defined bit_simps dest: bit_imp_le_length)

theorem SetBit_sets_one_bit_witness:
  "fixed_size_unsigned LENGTH(8) \<and> unat (3 :: 32 word) < LENGTH(8) \<and>
   (\<exists>r. SetBit (240 :: 8 word) 3 True = Some r \<and> bit r 3 \<and> bit r 7 \<and> \<not> bit r 0) \<and>
   fixed_size_unsigned LENGTH(64) \<and> unat (40 :: 32 word) < LENGTH(64) \<and>
   (\<exists>r. SetBit (- 1 :: 64 word) 40 False = Some r \<and> \<not> bit r 40 \<and> bit r 63 \<and> bit r 0)"
proof -
  have a: "fixed_size_unsigned LENGTH(8)" and b: "unat (3 :: 32 word) < LENGTH(8)"
    and c: "fixed_size_unsigned LENGTH(64)" and d: "unat (40 :: 32 word) < LENGTH(64)"
    by (simp_all add: fixed_size_unsigned_def)
  from SetBit_sets_one_bit [OF a b, of 240 True]
  have "\<exists>r. SetBit (240 :: 8 word) 3 True = Some r \<and> bit r 3 \<and> bit r 7 \<and> \<not> bit r 0"
    by (auto simp: bit_simps)
  moreover from SetBit_sets_one_bit [OF c d, of "- 1" False]
  have "\<exists>r. SetBit (- 1 :: 64 word) 40 False = Some r \<and> \<not> bit r 40 \<and> bit r 63 \<and> bit r 0"
    by (auto simp: bit_simps)
  ultimately show ?thesis
    using a b c d by simp
qed

section \<open>Properties of the alignment checks\<close>

lemma to_string_17: "to_string_u64 17 = ''17''"
  by code_simp

lemma to_string_8: "to_string_u64 8 = ''8''"
  by code_simp

lemma aligned_iff:
  "(item_ptr_val mod desired_alignment = 0) \<longleftrightarrow> (unat item_ptr_val mod unat desired_alignment = 0)"
  for item_ptr_val desired_alignment :: "64 word"
  by (simp add: unat_mod flip: unat_eq_0)

text \<open>
  Claim C5, as amended. For every address and every desired alignment other than 0,
  \<^verbatim>\<open>CheckAlignment\<close> returns true exactly when the address modulo the alignment is 0
  (and writes nothing unless verbose), and \<^verbatim>\<open>RequireAlignment\<close> fails with the runtime error
  whose message gives the address and the required alignment exactly when \<^verbatim>\<open>CheckAlignment\<close>
  returns false, and otherwise returns with no effect.
\<close>

theorem Alignment_nonzero:
  fixes item_ptr_val desired_alignment :: "64 word"
  assumes "desired_alignment \<noteq> 0"
  shows "(\<exists>out. CheckAlignment item_ptr_val desired_alignment verbose =
                  Some (unat item_ptr_val mod unat desired_alignment = 0, out)) \<and>
         CheckAlignment item_ptr_val desired_alignment False =
           Some (unat item_ptr_val mod unat desired_alignment = 0, []) \<and>
         RequireAlignment item_ptr_val desired_alignment =
           Some (if unat item_ptr_val mod unat desired_alignment = 0 then Inr ()
                 else Inl (runtime_error (''Item @ '' @ to_string_u64 item_ptr_val
                             @ '' not aligned at desired alignment of ''
                             @ to_string_u64 desired_alignment @ '' bytes''))) \<and>
         ((\<exists>msg. RequireAlignment item_ptr_val desired_alignment = Some (Inl msg)) \<longleftrightarrow>
            map_option fst (CheckAlignment item_ptr_val desired_alignment verbose) = Some False)"
  using assms
  by (auto simp: CheckAlignment_def RequireAlignment_def aligned_iff Let_def)

theorem Alignment_nonzero_witness:
  "(8 :: 64 word) \<noteq> 0 \<and>
   CheckAlignment 16 8 False = Some (True, []) \<and>
   RequireAlignment 16 8 = Some (Inr ()) \<and>
   CheckAlignment 17 8 False = Some (False, []) \<and>
   RequireAlignment 17 8 =
     Some (Inl (runtime_error ''Item @ 17 not aligned at desired alignment of 8 bytes''))"
proof -
  have nz: "(8 :: 64 word) \<noteq> 0" by simp
  show ?thesis
    using Alignment_nonzero [OF nz, of 16 False] Alignment_nonzero [OF nz, of 17 False]
    by (simp add: to_string_17 to_string_8)
qed

text \<open>
  Claim C5 as stated covers every desired alignment. At alignment 0 the remainder is
  undefined behaviour: \<^verbatim>\<open>CheckAlignment\<close> returns neither true nor false, and
  \<^verbatim>\<open>RequireAlignment\<close> neither returns normally nor fails with its alignment error.
\<close>

theorem Alignment_zero_counterexample:
  "CheckAlignment 16 0 False = None \<and> RequireAlignment 16 0 = None \<and>
   map_option fst (CheckAlignment 16 0 False) \<noteq> Some True \<and>
   map_option fst (CheckAlignment 16 0 False) \<noteq> Some False \<and>
   RequireAlignment 16 0 \<noteq> Some (Inr ()) \<and>
   RequireAlignment 16 0 \<noteq>
     Some (Inl (runtime_error ''Item @ 16 not aligned at desired alignment of 0 bytes''))"
  by (simp add: CheckAlignment_def RequireAlignment_def)

section \<open>Properties of the container utilities\<close>

lemma string_find_from_None:
  "string_find_from s substring pos = None \<longleftrightarrow> \<not> sublist substring s"
  by (induction s arbitrary: pos) (auto simp: sublist_Cons_right)

lemma string_find_None:
  "string_find s substring = None \<longleftrightarrow> \<not> (\<exists>pre post. s = pre @ substring @ post)"
  by (simp add: string_find_def string_find_from_None sublist_def)

text \<open>
  What \<open>string_find_from\<close> returns is the lowest position at which \<open>substring\<close> occurs,
  as the library specifies \<^verbatim>\<open>find\<close>.
\<close>

lemma string_find_from_Some:
  "string_find_from s substring pos = Some found \<Longrightarrow>
     pos \<le> found \<and> prefix substring (drop (found - pos) s) \<and>
     (\<forall>i < found - pos. \<not> prefix substring (drop i s))"
proof (induction s arbitrary: pos)
  case Nil
  then show ?case by (auto split: if_splits)
next
  case (Cons c cs)
  show ?case
  proof (cases "prefix substring (c # cs)")
    case True
    with Cons.prems show ?thesis by simp
  next
    case False
    with Cons.prems have rec: "string_find_from cs substring (Suc pos) = Some found"
      by simp
    from Cons.IH [OF rec] have ih: "Suc pos \<le> found"
      "prefix substring (drop (found - Suc pos) cs)"
      "\<forall>i < found - Suc pos. \<not> prefix substring (drop i cs)"
      by auto
    from ih(1) have eq: "found - pos = Suc (found - Suc pos)" by simp
    have "\<not> prefix substring (drop i (c # cs))" if "i < found - pos" for i
      using that False ih(3) eq by (cases i) auto
    with ih eq show ?thesis by simp
  qed
qed

text \<open>
  Claim C9. \<^verbatim>\<open>CheckAllStringsForSubstring(strings, substring)\<close> returns true exactly when
  \<open>substring\<close> occurs within every string of the sequence; the empty sequence gives true,
  and the empty substring occurs in every string, the empty string included.
\<close>

theorem CheckAllStringsForSubstring_iff:
  "(CheckAllStringsForSubstring strings substring \<longleftrightarrow>
      (\<forall>s \<in> set strings. \<exists>pre post. s = pre @ substring @ post)) \<and>
   CheckAllStringsForSubstring [] substring \<and>
   CheckAllStringsForSubstring [s] []"
proof -
  have "CheckAllStringsForSubstring strings substring \<longleftrightarrow>
      (\<forall>s \<in> set strings. \<exists>pre post. s = pre @ substring @ post)"
  proof (induction strings)
    case Nil
    show ?case by simp
  next
    case (Cons s strings)
    show ?case
    proof (cases "string_find s substring")
      case None
      then show ?thesis using string_find_None [of s substring] by auto
    next
      case (Some found)
      then have "\<exists>pre post. s = pre @ substring @ post"
        using string_find_None [of s substring] by auto
      with Some Cons show ?thesis by simp
    qed
  qed
  moreover have "CheckAllStringsForSubstring [s] []"
    by (cases s) (simp_all add: string_find_def)
  ultimately show ?thesis by simp
qed

theorem CheckAllStringsForSubstring_iff_witness:
  "CheckAllStringsForSubstring [''abc'', ''xabcy''] ''abc'' \<and>
   ''abc'' = [] @ ''abc'' @ [] \<and> ''xabcy'' = ''x'' @ ''abc'' @ ''y'' \<and>
   \<not> CheckAllStringsForSubstring [''abc'', ''xyz''] ''abc'' \<and>
   CheckAllStringsForSubstring [[]] []"
proof -
  have "\<forall>s \<in> set [''abc'', ''xabcy'']. \<exists>pre post. s = pre @ ''abc'' @ post"
  proof -
    have "''abc'' = [] @ ''abc'' @ []" and "''xabcy'' = ''x'' @ ''abc'' @ ''y''"
      by simp_all
    then show ?thesis by (metis empty_iff empty_set set_ConsD)
  qed
  with CheckAllStringsForSubstring_iff [of "[''abc'', ''xabcy'']" "''abc''" "[]"]
  have "CheckAllStringsForSubstring [''abc'', ''xabcy''] ''abc''"
    and "CheckAllStringsForSubstring [[]] []"
    by blast+
  moreover have "\<not> CheckAllStringsForSubstring [''abc'', ''xyz''] ''abc''"
    by code_simp
  ultimately show ?thesis by simp
qed

lemma equivalent_linorder: "equivalent a b \<longleftrightarrow> a = b"
  for a b :: "'a::linorder"
  by (auto simp: equivalent_def)

lemma std_map_find_None:
  "std_map_find items_map key = None \<longleftrightarrow> key \<notin> fst ` set items_map"
  for key :: "'a::linorder"
  by (induction items_map) (auto simp: equivalent_linorder)

lemma keys_std_map_assign:
  "fst ` set (std_map_assign key value items_map) = insert key (fst ` set items_map)"
  for key :: "'a::linorder"
  by (induction items_map) (auto simp: equivalent_linorder)

lemma keys_IsSubset_fill:
  "fst ` set (IsSubset_fill set' items_map) = set set' \<union> fst ` set items_map"
  for set' :: "'a::linorder list"
  by (induction set' arbitrary: items_map) (simp_all add: keys_std_map_assign)

lemma IsSubset_check_iff:
  "IsSubset_check items_map candidate_subset \<longleftrightarrow>
     set candidate_subset \<subseteq> fst ` set items_map"
  for candidate_subset :: "'a::linorder list"
proof (induction candidate_subset)
  case Nil
  show ?case by simp
next
  case (Cons item rest)
  show ?case
  proof (cases "std_map_find items_map item")
    case None
    then show ?thesis
      using std_map_find_None [of items_map item] by simp
  next
    case (Some found_itr)
    then have "item \<in> fst ` set items_map"
      using std_map_find_None [of items_map item] by auto
    with Some Cons show ?thesis by simp
  qed
qed

lemma IsSubset_iff: "IsSubset set' candidate_subset \<longleftrightarrow> set candidate_subset \<subseteq> set set'"
  for set' :: "'a::linorder list"
  by (simp add: IsSubset_def IsSubset_check_iff keys_IsSubset_fill)

text \<open>
  Claim C8, as amended. For sequences over a type that \<^verbatim>\<open>operator<\<close> orders totally,
  \<^verbatim>\<open>IsSubset(set, candidate_subset)\<close> returns true exactly when every element of
  \<open>candidate_subset\<close> is an element of \<open>set\<close>, whatever the multiplicities; the empty
  candidate is always a subset. \<^verbatim>\<open>SetsEqual(set1, set2)\<close> returns true exactly when both
  \<^verbatim>\<open>IsSubset(set1, set2)\<close> and \<^verbatim>\<open>IsSubset(set2, set1)\<close> do, that is when the two sequences
  have the same elements.
\<close>

theorem IsSubset_SetsEqual_membership:
  fixes set' candidate_subset set1 set2 :: "'a::linorder list"
  shows "(IsSubset set' candidate_subset \<longleftrightarrow> set candidate_subset \<subseteq> set set') \<and>
         IsSubset set' [] \<and>
         (SetsEqual set1 set2 \<longleftrightarrow> IsSubset set1 set2 \<and> IsSubset set2 set1) \<and>
         (SetsEqual set1 set2 \<longleftrightarrow> set set1 = set set2)"
  by (auto simp: SetsEqual_def IsSubset_iff)

theorem IsSubset_SetsEqual_membership_witness:
  "SetsEqual [1::nat, 2] [1, 2, 2] \<and> SetsEqual [1::nat, 2] [2, 1] \<and>
   IsSubset [1::nat, 2] [2, 2] \<and> \<not> IsSubset [1::nat, 2] [3] \<and> \<not> SetsEqual [1::nat, 2] [1]"
  using IsSubset_SetsEqual_membership [of "[1::nat, 2]" "[2, 2]" "[1::nat, 2]" "[1, 2, 2]"]
    IsSubset_SetsEqual_membership [of "[1::nat, 2]" "[3]" "[1::nat, 2]" "[2, 1]"]
    IsSubset_SetsEqual_membership [of "[1::nat, 2]" "[3]" "[1::nat, 2]" "[1]"]
  by auto

text \<open>
  Claim C8 as stated covers every pair of sequences. At a floating-point type NaN is
  equivalent to every key of the map, since no comparison with it is true: NaN is found in
  the map of the sequence that holds 1 only, so \<^verbatim>\<open>IsSubset\<close> and \<^verbatim>\<open>SetsEqual\<close> return true for
  those two sequences, although NaN is no element of the first.
\<close>

theorem IsSubset_NaN_counterexample:
  "IsSubset [Num (1::int)] [NaN] \<and> NaN \<notin> set [Num (1::int)] \<and>
   SetsEqual [Num (1::int)] [NaN] \<and> set [Num (1::int)] \<noteq> set [NaN]"
  by (simp add: SetsEqual_def IsSubset_def equivalent_def)

lemma GetKeys_loop_eq: "GetKeys_loop entries keys = keys @ map fst entries"
  by (induction entries arbitrary: keys) (simp_all add: Let_def)

lemma GetKeysAndValues_loop_eq:
  "GetKeysAndValues_loop entries keys_and_values = keys_and_values @ entries"
  by (induction entries arbitrary: keys_and_values) (simp_all add: Let_def)

text \<open>
  Claim C10. \<^verbatim>\<open>GetKeys(m)\<close> is the sequence of the first components of
  \<^verbatim>\<open>GetKeysAndValues(m)\<close>: both traverse the map in the same order.
\<close>

theorem GetKeys_projects_GetKeysAndValues:
  "GetKeys map' = map fst (GetKeysAndValues map')"
  by (simp add: GetKeys_def GetKeysAndValues_def GetKeys_loop_eq GetKeysAndValues_loop_eq)

lemma fold_index: "fold (\<lambda>idx. f (xs ! idx)) [0 ..< length xs] = fold f xs"
proof -
  have "fold f xs = fold f (map (\<lambda>idx. xs ! idx) [0 ..< length xs])"
    by (simp add: map_nth)
  also have "\<dots> = fold (\<lambda>idx. f (xs ! idx)) [0 ..< length xs]"
    by (simp add: fold_map comp_def)
  finally show ?thesis by simp
qed

lemma MakeFromKeysAndValues_fold:
  "MakeFromKeysAndValues keys_and_values =
     fold (\<lambda>cur_pair. RBT.insert (fst cur_pair) (snd cur_pair)) keys_and_values RBT.empty"
  using fold_index [of "\<lambda>cur_pair. RBT.insert (fst cur_pair) (snd cur_pair)" keys_and_values]
  by (simp add: MakeFromKeysAndValues_def Let_def)

lemma lookup_fold_insert:
  "RBT.lookup (fold (\<lambda>cur_pair. RBT.insert (fst cur_pair) (snd cur_pair)) kvs m) =
     RBT.lookup m ++ map_of (rev kvs)"
  by (induction kvs arbitrary: m) (auto simp: map_add_def fun_eq_iff split: option.splits)

lemma lookup_MakeFromKeysAndValues:
  "RBT.lookup (MakeFromKeysAndValues keys_and_values) = map_of (rev keys_and_values)"
  by (simp add: MakeFromKeysAndValues_fold lookup_fold_insert)

text \<open>
  Claim C7. For every ordered map \<open>m\<close>, \<^verbatim>\<open>MakeFromKeysAndValues(GetKeysAndValues(m))\<close> has
  the key/value content of \<open>m\<close>: the same value under every key, and the same sequence of
  entries.
\<close>

theorem MakeFromKeysAndValues_GetKeysAndValues:
  "RBT.lookup (MakeFromKeysAndValues (GetKeysAndValues map')) = RBT.lookup map' \<and>
   RBT.entries (MakeFromKeysAndValues (GetKeysAndValues map')) = RBT.entries map'"
proof -
  have "RBT.lookup (MakeFromKeysAndValues (GetKeysAndValues map')) = map_of (rev (RBT.entries map'))"
    by (simp add: lookup_MakeFromKeysAndValues GetKeysAndValues_def GetKeysAndValues_loop_eq)
  also have "\<dots> = map_of (RBT.entries map')"
    by (rule distinct_map_of_rev) (rule RBT.distinct_entries)
  finally have "RBT.lookup (MakeFromKeysAndValues (GetKeysAndValues map')) = RBT.lookup map'"
    by simp
  then show ?thesis
    by (simp add: RBT.entries_lookup)
qed










end
